theory Spec2Isabelle
  imports Complex_Main
begin

section \<open>Data model\<close>

text \<open>
  The controller of \<^verbatim>\<open>controller.py\<close> steps a quadruped one control tick at a time.
  Floating-point numbers are modelled as \<^typ>\<open>real\<close>, Python integers as \<^typ>\<open>int\<close>.
  Every exception the controller itself can raise is a value of \<open>py_error\<close>.
\<close>

datatype BehaviorState = DEACTIVATED | REST | TROT | HOP | FINISHHOP

datatype py_error = KeyError | ZeroDivisionError | IndexError

text \<open>
  A foot-location matrix has 3 rows (x, y, z) and 4 columns (one per leg). It is kept
  as its four columns, so that \<^verbatim>\<open>m[:, leg_index]\<close> is a component. A rotation matrix
  is kept as its three rows.
\<close>

type_synonym vec3 = "real \<times> real \<times> real"
type_synonym mat34 = "vec3 \<times> vec3 \<times> vec3 \<times> vec3"
type_synonym mat33 = "vec3 \<times> vec3 \<times> vec3"
type_synonym quat = "real \<times> real \<times> real \<times> real"

record Command =
  activate_event :: bool
  trot_event :: bool
  hop_event :: bool
  roll :: real
  pitch :: real
  yaw_rate :: real
  height :: real

record Configuration =
  dt :: real
  swing_ticks :: int
  max_yaw_rate :: real
  max_stance_yaw :: real
  max_stance_yaw_rate :: real
  yaw_time_constant :: real
  default_stance :: mat34

record 'j State =
  behavior_state :: BehaviorState
  ticks :: int
  foot_locations :: mat34
  joint_angles :: 'j
  quat_orientation :: quat
  pitch :: real
  roll :: real
  height :: real

text \<open>
  The functions the module imports from outside this file: \<^verbatim>\<open>euler2mat\<close> and
  \<^verbatim>\<open>quat2euler\<close> of transforms3d and \<^verbatim>\<open>utilities.clipped_first_order_filter\<close>.
  Their code is not part of the controller, so they are parameters of the model.
\<close>

record Imports =
  euler2mat :: "real \<Rightarrow> real \<Rightarrow> real \<Rightarrow> mat33"
  quat2euler :: "quat \<Rightarrow> real \<times> real \<times> real"
  clipped_first_order_filter :: "real \<Rightarrow> real \<Rightarrow> real \<Rightarrow> real \<Rightarrow> real"

text \<open>
  The attributes of \<^verbatim>\<open>Controller\<close> that \<^verbatim>\<open>run\<close> and \<^verbatim>\<open>step_gait\<close> use. The gait,
  stance and swing controllers are external objects; each is represented by the methods
  called on it: \<^verbatim>\<open>gait_controller.contacts\<close>, \<^verbatim>\<open>gait_controller.subphase_ticks\<close>,
  \<^verbatim>\<open>stance_controller.next_foot_location\<close> and \<^verbatim>\<open>swing_controller.next_foot_location\<close>.
  The attribute \<^verbatim>\<open>contact_modes\<close> is set by the constructor and never read or written
  afterwards; it is left out.
\<close>

record 'j Controller =
  config :: Configuration
  smoothed_yaw :: real
  inverse_kinematics :: "mat34 \<Rightarrow> Configuration \<Rightarrow> 'j"
  contacts :: "int \<Rightarrow> int list"
  subphase_ticks :: "int \<Rightarrow> int"
  stance_next_foot_location :: "nat \<Rightarrow> 'j State \<Rightarrow> Command \<Rightarrow> vec3"
  swing_next_foot_location :: "real \<Rightarrow> nat \<Rightarrow> 'j State \<Rightarrow> Command \<Rightarrow> vec3"

text \<open>
  The calls the controller makes to its collaborators, in the order it makes them:
  the stance planner with a leg index, the swing planner with a swing proportion and a
  leg index, inverse kinematics with a foot-location matrix.
\<close>

datatype call = StanceCall nat | SwingCall real nat | IKCall mat34

text \<open>
  What one call of \<^verbatim>\<open>run\<close> leaves behind: the exception it raised (if any), the
  controller object and the state object as mutated up to that point, and the calls made.
\<close>

record 'j Outcome =
  raised :: "py_error option"
  controller_after :: "'j Controller"
  state_after :: "'j State"
  calls :: "call list"

section \<open>Matrix operations\<close>

fun dot :: "vec3 \<Rightarrow> vec3 \<Rightarrow> real" where
  "dot (a, b, c) (x, y, z) = a * x + b * y + c * z"

fun matvec :: "mat33 \<Rightarrow> vec3 \<Rightarrow> vec3" where
  "matvec (r0, r1, r2) v = (dot r0 v, dot r1 v, dot r2 v)"

text \<open>The product \<^verbatim>\<open>R @ M\<close> of a 3x3 with a 3x4 matrix, column by column.\<close>

fun matmul :: "mat33 \<Rightarrow> mat34 \<Rightarrow> mat34" where
  "matmul R (c0, c1, c2, c3) = (matvec R c0, matvec R c1, matvec R c2, matvec R c3)"

text \<open>\<^verbatim>\<open>R.T\<close>\<close>

fun transpose33 :: "mat33 \<Rightarrow> mat33" where
  "transpose33 ((a, b, c), (d, e, f), (g, h, i)) = ((a, d, g), (b, e, h), (c, f, i))"

fun vadd :: "vec3 \<Rightarrow> vec3 \<Rightarrow> vec3" where
  "vadd (a, b, c) (x, y, z) = (a + x, b + y, c + z)"

text \<open>\<^verbatim>\<open>M + v[:, np.newaxis]\<close>: the column vector is broadcast over the 4 columns.\<close>

fun add_newaxis :: "mat34 \<Rightarrow> vec3 \<Rightarrow> mat34" where
  "add_newaxis (c0, c1, c2, c3) v = (vadd c0 v, vadd c1 v, vadd c2 v, vadd c3 v)"

text \<open>\<^verbatim>\<open>np.zeros((3, 4))\<close>\<close>

definition zeros34 :: mat34 where
  "zeros34 = ((0, 0, 0), (0, 0, 0), (0, 0, 0), (0, 0, 0))"

text \<open>\<^verbatim>\<open>M[:, i]\<close> for the indices 0..3 of \<^verbatim>\<open>range(4)\<close>.\<close>

fun col :: "mat34 \<Rightarrow> nat \<Rightarrow> vec3" where
  "col (c0, c1, c2, c3) i = (if i = 0 then c0 else if i = 1 then c1 else if i = 2 then c2 else c3)"

text \<open>\<^verbatim>\<open>M[:, i] = v\<close> for the indices 0..3 of \<^verbatim>\<open>range(4)\<close>; no other index occurs.\<close>

fun set_col :: "mat34 \<Rightarrow> nat \<Rightarrow> vec3 \<Rightarrow> mat34" where
  "set_col (c0, c1, c2, c3) i v =
     (if i = 0 then (v, c1, c2, c3)
      else if i = 1 then (c0, v, c2, c3)
      else if i = 2 then (c0, c1, v, c3)
      else if i = 3 then (c0, c1, c2, v)
      else (c0, c1, c2, c3))"

text \<open>\<^verbatim>\<open>np.clip(a, a_min, a_max)\<close>\<close>

definition clip :: "real \<Rightarrow> real \<Rightarrow> real \<Rightarrow> real" where
  "clip a a_min a_max = min (max a a_min) a_max"

section \<open>Python operations that can raise\<close>

text \<open>\<^verbatim>\<open>d[k]\<close> on a dict raises KeyError when the key is absent.\<close>

definition getitem :: "('k \<rightharpoonup> 'v) \<Rightarrow> 'k \<Rightarrow> py_error + 'v" where
  "getitem d k = (case d k of None \<Rightarrow> Inl KeyError | Some v \<Rightarrow> Inr v)"

text \<open>\<^verbatim>\<open>xs[i]\<close> with a non-negative index raises IndexError past the end.\<close>

definition index :: "'a list \<Rightarrow> nat \<Rightarrow> py_error + 'a" where
  "index xs i = (if i < length xs then Inr (xs ! i) else Inl IndexError)"

text \<open>\<^verbatim>\<open>a / b\<close> on two Python integers: true division, ZeroDivisionError at 0.\<close>

definition int_truediv :: "int \<Rightarrow> int \<Rightarrow> py_error + real" where
  "int_truediv a b = (if b = 0 then Inl ZeroDivisionError else Inr (real_of_int a / real_of_int b))"

text \<open>\<^verbatim>\<open>a / b\<close> on two Python floats: ZeroDivisionError at 0.\<close>

definition float_truediv :: "real \<Rightarrow> real \<Rightarrow> py_error + real" where
  "float_truediv a b = (if b = 0 then Inl ZeroDivisionError else Inr (a / b))"

section \<open>The transition tables\<close>

definition hop_transition_mapping :: "BehaviorState \<rightharpoonup> BehaviorState" where
  "hop_transition_mapping = [REST \<mapsto> HOP, HOP \<mapsto> FINISHHOP, FINISHHOP \<mapsto> REST, TROT \<mapsto> HOP]"

definition trot_transition_mapping :: "BehaviorState \<rightharpoonup> BehaviorState" where
  "trot_transition_mapping = [REST \<mapsto> TROT, TROT \<mapsto> REST, HOP \<mapsto> TROT, FINISHHOP \<mapsto> TROT]"

definition activate_transition_mapping :: "BehaviorState \<rightharpoonup> BehaviorState" where
  "activate_transition_mapping = [DEACTIVATED \<mapsto> REST, REST \<mapsto> DEACTIVATED]"

text \<open>
  The first statement of \<^verbatim>\<open>run\<close>: the \<^verbatim>\<open>if/elif/elif\<close> chain that computes the value
  assigned to \<^verbatim>\<open>state.behavior_state\<close> (the old value when no event is set), or the
  KeyError of the lookup.
\<close>

definition transition :: "'j State \<Rightarrow> Command \<Rightarrow> py_error + BehaviorState" where
  "transition state command =
     (if activate_event command then getitem activate_transition_mapping (behavior_state state)
      else if trot_event command then getitem trot_transition_mapping (behavior_state state)
      else if hop_event command then getitem hop_transition_mapping (behavior_state state)
      else Inr (behavior_state state))"

section \<open>step_gait\<close>

text \<open>
  The body of the loop of \<^verbatim>\<open>step_gait\<close> for one leg: the new location of the leg and
  the planner call that produced it.
\<close>

definition step_gait_leg ::
  "'j Controller \<Rightarrow> 'j State \<Rightarrow> Command \<Rightarrow> int list \<Rightarrow> nat \<Rightarrow> py_error + (vec3 \<times> call)" where
  "step_gait_leg self state command contact_modes leg_index =
     (case index contact_modes leg_index of
        Inl e \<Rightarrow> Inl e
      | Inr contact_mode \<Rightarrow>
          if contact_mode = 1
          then Inr (stance_next_foot_location self leg_index state command, StanceCall leg_index)
          else (case int_truediv (subphase_ticks self (ticks state)) (swing_ticks (config self)) of
                  Inl e \<Rightarrow> Inl e
                | Inr swing_proportion \<Rightarrow>
                    Inr (swing_next_foot_location self swing_proportion leg_index state command,
                         SwingCall swing_proportion leg_index)))"

text \<open>
  The loop over the leg indices: it fills \<^verbatim>\<open>new_foot_locations\<close> column by column and
  stops at the first exception. The trace of calls is returned in both cases.
\<close>

fun step_gait_loop ::
  "'j Controller \<Rightarrow> 'j State \<Rightarrow> Command \<Rightarrow> int list \<Rightarrow> nat list \<Rightarrow> mat34 \<Rightarrow> call list
     \<Rightarrow> (py_error + mat34) \<times> call list" where
  "step_gait_loop self state command contact_modes [] new_foot_locations trace =
     (Inr new_foot_locations, trace)"
| "step_gait_loop self state command contact_modes (leg_index # rest) new_foot_locations trace =
     (case step_gait_leg self state command contact_modes leg_index of
        Inl e \<Rightarrow> (Inl e, trace)
      | Inr (new_location, c) \<Rightarrow>
          step_gait_loop self state command contact_modes rest
            (set_col new_foot_locations leg_index new_location) (trace @ [c]))"

definition step_gait ::
  "'j Controller \<Rightarrow> 'j State \<Rightarrow> Command \<Rightarrow> (py_error + (mat34 \<times> int list)) \<times> call list" where
  "step_gait self state command =
     (let contact_modes = contacts self (ticks state)
      in case step_gait_loop self state command contact_modes [0..<4] zeros34 [] of
           (Inl e, trace) \<Rightarrow> (Inl e, trace)
         | (Inr new_foot_locations, trace) \<Rightarrow> (Inr (new_foot_locations, contact_modes), trace))"

section \<open>run\<close>

text \<open>
  The branch of \<^verbatim>\<open>run\<close> taken when \<^verbatim>\<open>state.behavior_state == TROT\<close>.
\<close>

definition run_trot :: "Imports \<Rightarrow> 'j Controller \<Rightarrow> 'j State \<Rightarrow> Command \<Rightarrow> 'j Outcome" where
  "run_trot lib self state command =
     (case step_gait self state command of
        (Inl e, trace) \<Rightarrow>
          \<lparr>raised = Some e, controller_after = self, state_after = state, calls = trace\<rparr>
      | (Inr (new_foot_locations, contact_modes), trace) \<Rightarrow>
          (let state1 = state\<lparr>foot_locations := new_foot_locations\<rparr>;
               rotated_foot_locations =
                 matmul (euler2mat lib (Command.roll command) (Command.pitch command) 0)
                        (foot_locations state1)
           in case quat2euler lib (quat_orientation state1) of
                (roll', pitch', yaw') \<Rightarrow>
                  (let correction_factor = 0.8;
                       max_tilt = 0.4;
                       roll_compensation = correction_factor * clip roll' (- max_tilt) max_tilt;
                       pitch_compensation = correction_factor * clip pitch' (- max_tilt) max_tilt;
                       rmat = euler2mat lib roll_compensation pitch_compensation 0;
                       rotated_foot_locations' = matmul (transpose33 rmat) rotated_foot_locations
                   in \<lparr>raised = None, controller_after = self,
                        state_after = state1\<lparr>joint_angles :=
                          inverse_kinematics self rotated_foot_locations' (config self)\<rparr>,
                        calls = trace @ [IKCall rotated_foot_locations']\<rparr>)))"

text \<open>The branch taken when \<^verbatim>\<open>state.behavior_state == REST\<close>.\<close>

definition run_rest :: "Imports \<Rightarrow> 'j Controller \<Rightarrow> 'j State \<Rightarrow> Command \<Rightarrow> 'j Outcome" where
  "run_rest lib self state command =
     (case float_truediv (yaw_rate command) (max_yaw_rate (config self)) of
        Inl e \<Rightarrow> \<lparr>raised = Some e, controller_after = self, state_after = state, calls = []\<rparr>
      | Inr yaw_proportion \<Rightarrow>
          (let self1 = self\<lparr>smoothed_yaw := smoothed_yaw self
                 + dt (config self) * clipped_first_order_filter lib
                     (smoothed_yaw self)
                     (yaw_proportion * - max_stance_yaw (config self))
                     (max_stance_yaw_rate (config self))
                     (yaw_time_constant (config self))\<rparr>;
               state1 = state\<lparr>foot_locations :=
                 add_newaxis (default_stance (config self1)) (0, 0, Command.height command)\<rparr>;
               rotated_foot_locations =
                 matmul (euler2mat lib (Command.roll command) (Command.pitch command)
                           (smoothed_yaw self1))
                        (foot_locations state1)
           in \<lparr>raised = None, controller_after = self1,
                state_after = state1\<lparr>joint_angles :=
                  inverse_kinematics self1 rotated_foot_locations (config self1)\<rparr>,
                calls = [IKCall rotated_foot_locations]\<rparr>))"

text \<open>
  The branches for HOP and FINISHHOP differ in the constant only; \<open>dz\<close> is \<open>-0.09\<close> in
  the first and \<open>-0.22\<close> in the second.
\<close>

definition run_hop :: "real \<Rightarrow> 'j Controller \<Rightarrow> 'j State \<Rightarrow> 'j Outcome" where
  "run_hop dz self state =
     (let state1 = state\<lparr>foot_locations := add_newaxis (default_stance (config self)) (0, 0, dz)\<rparr>
      in \<lparr>raised = None, controller_after = self,
           state_after = state1\<lparr>joint_angles :=
             inverse_kinematics self (foot_locations state1) (config self)\<rparr>,
           calls = [IKCall (foot_locations state1)]\<rparr>)"

text \<open>
  The \<^verbatim>\<open>if/elif\<close> chain on \<^verbatim>\<open>state.behavior_state\<close>; no branch is taken for DEACTIVATED.
\<close>

definition dispatch :: "Imports \<Rightarrow> 'j Controller \<Rightarrow> 'j State \<Rightarrow> Command \<Rightarrow> 'j Outcome" where
  "dispatch lib self state command =
     (if behavior_state state = TROT then run_trot lib self state command
      else if behavior_state state = HOP then run_hop (- 0.09) self state
      else if behavior_state state = FINISHHOP then run_hop (- 0.22) self state
      else if behavior_state state = REST then run_rest lib self state command
      else \<lparr>raised = None, controller_after = self, state_after = state, calls = []\<rparr>)"

text \<open>
  \<^verbatim>\<open>Controller.run\<close>: the transition, the mode's branch, then the four assignments at
  the end. An exception leaves the objects as they are when it is raised.
\<close>

definition run :: "Imports \<Rightarrow> 'j Controller \<Rightarrow> 'j State \<Rightarrow> Command \<Rightarrow> 'j Outcome" where
  "run lib self state command =
     (case transition state command of
        Inl e \<Rightarrow> \<lparr>raised = Some e, controller_after = self, state_after = state, calls = []\<rparr>
      | Inr b \<Rightarrow>
          (let out = dispatch lib self (state\<lparr>behavior_state := b\<rparr>) command
           in case raised out of
                Some e \<Rightarrow> out
              | None \<Rightarrow>
                  out\<lparr>state_after := (state_after out)\<lparr>
                    ticks := ticks (state_after out) + 1,
                    pitch := Command.pitch command,
                    roll := Command.roll command,
                    height := Command.height command\<rparr>\<rparr>))"

section \<open>The specification's vocabulary\<close>

text \<open>
  The three edge-triggered events of a command, and the event that is honoured when
  several are set: activate before trot before hop.
\<close>

datatype event = Activate | Trot | Hop

definition honored_event :: "Command \<Rightarrow> event option" where
  "honored_event command =
     (if activate_event command then Some Activate
      else if trot_event command then Some Trot
      else if hop_event command then Some Hop
      else None)"

text \<open>
  The successor tables as the specification lists them, pair by pair; a pair that is
  not listed has no successor.
\<close>

fun spec_successor :: "event \<Rightarrow> BehaviorState \<Rightarrow> BehaviorState option" where
  "spec_successor Activate DEACTIVATED = Some REST"
| "spec_successor Activate REST = Some DEACTIVATED"
| "spec_successor Trot REST = Some TROT"
| "spec_successor Trot TROT = Some REST"
| "spec_successor Trot HOP = Some TROT"
| "spec_successor Trot FINISHHOP = Some TROT"
| "spec_successor Hop REST = Some HOP"
| "spec_successor Hop HOP = Some FINISHHOP"
| "spec_successor Hop FINISHHOP = Some REST"
| "spec_successor Hop TROT = Some HOP"
| "spec_successor _ _ = None"

text \<open>The table the controller consults for an event.\<close>

fun table_of :: "event \<Rightarrow> (BehaviorState \<rightharpoonup> BehaviorState)" where
  "table_of Activate = activate_transition_mapping"
| "table_of Trot = trot_transition_mapping"
| "table_of Hop = hop_transition_mapping"

text \<open>
  The compensation angle as the specification writes it: the measured angle clipped
  to the interval from \<open>-0.4\<close> to \<open>0.4\<close>, times \<open>0.8\<close>.
\<close>

definition spec_compensation :: "real \<Rightarrow> real" where
  "spec_compensation v = (if v < - 0.4 then - 0.4 else if 0.4 < v then 0.4 else v) * 0.8"

definition eye33 :: mat33 where
  "eye33 = ((1, 0, 0), (0, 1, 0), (0, 0, 1))"

definition unit_quat :: "quat \<Rightarrow> bool" where
  "unit_quat q = (case q of (w, x, y, z) \<Rightarrow> w * w + x * x + y * y + z * z = 1)"

section \<open>Concrete collaborators\<close>

text \<open>
  The theorems below hold for every value of \<open>Imports\<close> and every controller. To run
  the model on concrete inputs, the imported functions are instantiated as follows.
  \<open>euler2mat\<close> and \<open>quat2euler\<close> follow the static x-y-z convention, which is the
  default of transforms3d and the one the controller uses (it passes no \<^verbatim>\<open>axes\<close>):
  the matrix of \<open>euler2mat ai aj ak\<close> is the rotation about x by \<open>ai\<close>, then about y by
  \<open>aj\<close>, then about z by \<open>ak\<close>; \<open>quat2euler\<close> converts the quaternion \<open>(w, x, y, z)\<close>
  to a matrix (scaling by the squared norm) and reads the three angles off the matrix.
\<close>

definition atan2 :: "real \<Rightarrow> real \<Rightarrow> real" where
  "atan2 y x =
     (if 0 < x then arctan (y / x)
      else if x < 0 then (if 0 \<le> y then arctan (y / x) + pi else arctan (y / x) - pi)
      else if 0 < y then pi / 2
      else if y < 0 then - (pi / 2)
      else 0)"

definition euler2mat_sxyz :: "real \<Rightarrow> real \<Rightarrow> real \<Rightarrow> mat33" where
  "euler2mat_sxyz ai aj ak =
     (let si = sin ai; sj = sin aj; sk = sin ak;
          ci = cos ai; cj = cos aj; ck = cos ak;
          cc = ci * ck; cs = ci * sk;
          sc = si * ck; ss = si * sk
      in ((cj * ck, sj * sc - cs, sj * cc + ss),
          (cj * sk, sj * ss + cc, sj * cs - sc),
          (- sj, cj * si, cj * ci)))"

definition float_eps :: real where
  "float_eps = 1 / 2 ^ 52"

definition quat2mat :: "quat \<Rightarrow> mat33" where
  "quat2mat q =
     (case q of (w, x, y, z) \<Rightarrow>
        (let Nq = w * w + x * x + y * y + z * z
         in if Nq < float_eps then eye33
            else (let s = 2 / Nq;
                      X = x * s; Y = y * s; Z = z * s;
                      wX = w * X; wY = w * Y; wZ = w * Z;
                      xX = x * X; xY = x * Y; xZ = x * Z;
                      yY = y * Y; yZ = y * Z; zZ = z * Z
                  in ((1 - (yY + zZ), xY - wZ, xZ + wY),
                      (xY + wZ, 1 - (xX + zZ), yZ - wX),
                      (xZ - wY, yZ + wX, 1 - (xX + yY))))))"

definition mat2euler_sxyz :: "mat33 \<Rightarrow> real \<times> real \<times> real" where
  "mat2euler_sxyz M =
     (case M of ((m00, m01, m02), (m10, m11, m12), (m20, m21, m22)) \<Rightarrow>
        (let cy = sqrt (m00 * m00 + m10 * m10)
         in if 4 * float_eps < cy
            then (atan2 m21 m22, atan2 (- m20) cy, atan2 m10 m00)
            else (atan2 (- m12) m11, atan2 (- m20) cy, 0)))"

definition quat2euler_sxyz :: "quat \<Rightarrow> real \<times> real \<times> real" where
  "quat2euler_sxyz q = mat2euler_sxyz (quat2mat q)"

text \<open>
  Modelled from the spec: \<^verbatim>\<open>utilities.clipped_first_order_filter\<close> is not in the
  source file. The specification calls it a clipped first-order filter that drives the
  input toward the target with a time constant, rate-limited by a maximum rate.
\<close>

definition first_order_filter :: "real \<Rightarrow> real \<Rightarrow> real \<Rightarrow> real \<Rightarrow> real" where
  "first_order_filter input target max_rate tau = clip ((target - input) / tau) (- max_rate) max_rate"

definition transforms3d :: Imports where
  "transforms3d =
     \<lparr>euler2mat = euler2mat_sxyz, quat2euler = quat2euler_sxyz,
      clipped_first_order_filter = first_order_filter\<rparr>"

text \<open>
  A configuration, a trot schedule (all four legs down at even ticks, one diagonal pair
  down at odd ticks), two planners and an inverse-kinematics function that returns the
  matrix it is given, so that the joint angles show what was passed.
\<close>

definition example_config :: Configuration where
  "example_config =
     \<lparr>dt = 0.01, swing_ticks = 10, max_yaw_rate = 2, max_stance_yaw = 1.2,
      max_stance_yaw_rate = 2, yaw_time_constant = 0.3,
      default_stance = ((0.1, - 0.09, 0), (0.1, 0.09, 0), (- 0.1, - 0.09, 0), (- 0.1, 0.09, 0))\<rparr>"

definition example_contacts :: "int \<Rightarrow> int list" where
  "example_contacts t =
     (if t mod 4 = 1 then [1, 0, 0, 1] else if t mod 4 = 3 then [0, 1, 1, 0] else [1, 1, 1, 1])"

definition example_controller :: "mat34 Controller" where
  "example_controller =
     \<lparr>config = example_config,
      smoothed_yaw = 0,
      inverse_kinematics = (\<lambda>foot_locations config. foot_locations),
      contacts = example_contacts,
      subphase_ticks = (\<lambda>t. t mod 10),
      stance_next_foot_location =
        (\<lambda>leg_index state command. vadd (col (foot_locations state) leg_index) (- 0.01, 0, 0)),
      swing_next_foot_location =
        (\<lambda>swing_proportion leg_index state command.
           vadd (col (foot_locations state) leg_index) (0.02, 0, swing_proportion))\<rparr>"

definition example_state :: "BehaviorState \<Rightarrow> int \<Rightarrow> quat \<Rightarrow> mat34 State" where
  "example_state b t q =
     \<lparr>behavior_state = b, ticks = t,
      foot_locations = ((0.1, - 0.09, - 0.16), (0.1, 0.09, - 0.16),
                        (- 0.1, - 0.09, - 0.16), (- 0.1, 0.09, - 0.16)),
      joint_angles = zeros34, quat_orientation = q,
      pitch = 0, roll = 0, height = - 0.16\<rparr>"

definition example_command :: "bool \<Rightarrow> bool \<Rightarrow> bool \<Rightarrow> Command" where
  "example_command a t h =
     \<lparr>activate_event = a, trot_event = t, hop_event = h,
      Command.roll = 0.1, Command.pitch = 0.05, yaw_rate = 0.5, Command.height = - 0.2\<rparr>"

text \<open>
  Two further commands, with no event set: one asks for a level body, one for a roll of
  \<open>0.1\<close> and no pitch. And a state in TROT whose four feet lie on the x axis.
\<close>

definition level_command :: Command where
  "level_command = (example_command False False False)\<lparr>Command.roll := 0, Command.pitch := 0\<rparr>"

definition roll_command :: Command where
  "roll_command = (example_command False False False)\<lparr>Command.pitch := 0\<rparr>"

definition axis_state :: "mat34 State" where
  "axis_state = (example_state TROT 0 (1, 0, 0, 0))\<lparr>foot_locations :=
     ((0.11, 0, 0), (0.21, 0, 0), (- 0.09, 0, 0), (- 0.19, 0, 0))\<rparr>"

section \<open>Basic facts about the model\<close>

lemma range4: "[0..<4] = [0, 1, 2, 3]"
  by (simp add: upt_rec)

lemma all_legs: "(\<forall>leg<4. P leg) \<longleftrightarrow> P 0 \<and> P 1 \<and> P 2 \<and> P (3::nat)"
proof -
  have "leg < 4 \<longleftrightarrow> leg = 0 \<or> leg = 1 \<or> leg = 2 \<or> leg = 3" for leg :: nat
    by arith
  then show ?thesis by auto
qed

lemma col_add_newaxis: "i < 4 \<Longrightarrow> col (add_newaxis M v) i = vadd (col M i) v"
  by (cases M) simp

lemma clip_spec: "0.8 * clip v (- 0.4) 0.4 = spec_compensation v"
  by (simp add: clip_def spec_compensation_def min_def max_def)

subsection \<open>The transition\<close>

lemma transition_honored:
  "transition st cmd =
     (case honored_event cmd of
        None \<Rightarrow> Inr (behavior_state st)
      | Some ev \<Rightarrow> getitem (table_of ev) (behavior_state st))"
  by (simp add: transition_def honored_event_def)

lemma table_of_spec: "table_of ev b = spec_successor ev b"
  by (cases ev; cases b)
     (simp_all add: activate_transition_mapping_def trot_transition_mapping_def
        hop_transition_mapping_def)

lemma transition_KeyError: "transition st cmd = Inl e \<Longrightarrow> e = KeyError"
  by (auto simp add: transition_def getitem_def split: if_splits option.splits)

lemma transition_Inl_iff:
  "(\<exists>e. transition st cmd = Inl e)
     \<longleftrightarrow> (\<exists>ev. honored_event cmd = Some ev \<and> table_of ev (behavior_state st) = None)"
  by (auto simp add: transition_honored getitem_def split: option.splits)

subsection \<open>The mode's branch\<close>

text \<open>No branch touches the mode, the tick counter, the cached command values or the orientation.\<close>

lemma dispatch_frame:
  "behavior_state (state_after (dispatch lib self st cmd)) = behavior_state st
   \<and> ticks (state_after (dispatch lib self st cmd)) = ticks st
   \<and> pitch (state_after (dispatch lib self st cmd)) = pitch st
   \<and> roll (state_after (dispatch lib self st cmd)) = roll st
   \<and> height (state_after (dispatch lib self st cmd)) = height st
   \<and> quat_orientation (state_after (dispatch lib self st cmd)) = quat_orientation st"
  by (simp add: dispatch_def run_trot_def run_hop_def run_rest_def Let_def
      split: prod.splits sum.splits)

lemma step_gait_leg_not_KeyError: "step_gait_leg self st cmd cm i \<noteq> Inl KeyError"
  by (simp add: step_gait_leg_def index_def int_truediv_def split: sum.splits)

lemma step_gait_loop_not_KeyError:
  "fst (step_gait_loop self st cmd cm legs M tr) \<noteq> Inl KeyError"
proof (induction legs arbitrary: M tr)
  case Nil
  show ?case by simp
next
  case (Cons i legs)
  show ?case
  proof (cases "step_gait_leg self st cmd cm i")
    case (Inl e)
    with step_gait_leg_not_KeyError [of self st cmd cm i] show ?thesis by simp
  next
    case (Inr r)
    with Cons show ?thesis by (cases r) simp
  qed
qed

lemma step_gait_not_KeyError: "fst (step_gait self st cmd) \<noteq> Inl KeyError"
  using step_gait_loop_not_KeyError [of self st cmd "contacts self (ticks st)" "[0..<4]" zeros34 "[]"]
  by (auto simp add: step_gait_def Let_def split: prod.splits sum.splits)

lemma dispatch_not_KeyError: "raised (dispatch lib self st cmd) \<noteq> Some KeyError"
  using step_gait_not_KeyError [of self st cmd]
  by (auto simp add: dispatch_def run_trot_def run_hop_def run_rest_def float_truediv_def Let_def
      split: prod.splits sum.splits)

lemma dispatch_DEACTIVATED:
  "behavior_state st = DEACTIVATED \<Longrightarrow>
   dispatch lib self st cmd = \<lparr>raised = None, controller_after = self, state_after = st, calls = []\<rparr>"
  by (simp add: dispatch_def)

lemma dispatch_hop:
  "behavior_state st = HOP \<Longrightarrow> dispatch lib self st cmd = run_hop (- 0.09) self st"
  "behavior_state st = FINISHHOP \<Longrightarrow> dispatch lib self st cmd = run_hop (- 0.22) self st"
  by (simp_all add: dispatch_def)

lemma dispatch_TROT:
  "behavior_state st = TROT \<Longrightarrow> dispatch lib self st cmd = run_trot lib self st cmd"
  by (simp add: dispatch_def)

lemma run_hop_result:
  "raised (run_hop dz self st) = None
   \<and> foot_locations (state_after (run_hop dz self st))
       = add_newaxis (default_stance (config self)) (0, 0, dz)
   \<and> joint_angles (state_after (run_hop dz self st))
       = inverse_kinematics self (add_newaxis (default_stance (config self)) (0, 0, dz)) (config self)
   \<and> calls (run_hop dz self st) = [IKCall (add_newaxis (default_stance (config self)) (0, 0, dz))]"
  by (simp add: run_hop_def Let_def)

subsection \<open>run, by the outcome of the transition\<close>

lemma run_Inl:
  "transition st cmd = Inl e \<Longrightarrow>
   run lib self st cmd = \<lparr>raised = Some e, controller_after = self, state_after = st, calls = []\<rparr>"
  by (simp add: run_def)

lemma run_behavior_state:
  "transition st cmd = Inr b \<Longrightarrow> behavior_state (state_after (run lib self st cmd)) = b"
  using dispatch_frame [of lib self "st\<lparr>behavior_state := b\<rparr>" cmd]
  by (simp add: run_def Let_def split: option.splits)

lemma run_raised:
  "transition st cmd = Inr b \<Longrightarrow>
   raised (run lib self st cmd) = raised (dispatch lib self (st\<lparr>behavior_state := b\<rparr>) cmd)"
  by (simp add: run_def Let_def split: option.splits)

lemma run_calls:
  "transition st cmd = Inr b \<Longrightarrow>
   calls (run lib self st cmd) = calls (dispatch lib self (st\<lparr>behavior_state := b\<rparr>) cmd)"
  by (simp add: run_def Let_def split: option.splits)

lemma run_controller:
  "transition st cmd = Inr b \<Longrightarrow>
   controller_after (run lib self st cmd)
     = controller_after (dispatch lib self (st\<lparr>behavior_state := b\<rparr>) cmd)"
  by (simp add: run_def Let_def split: option.splits)

lemma run_foot_joint:
  "transition st cmd = Inr b \<Longrightarrow>
   foot_locations (state_after (run lib self st cmd))
     = foot_locations (state_after (dispatch lib self (st\<lparr>behavior_state := b\<rparr>) cmd))
   \<and> joint_angles (state_after (run lib self st cmd))
     = joint_angles (state_after (dispatch lib self (st\<lparr>behavior_state := b\<rparr>) cmd))"
  by (simp add: run_def Let_def split: option.splits)

lemma run_Inr_ok:
  "transition st cmd = Inr b \<Longrightarrow>
   raised (dispatch lib self (st\<lparr>behavior_state := b\<rparr>) cmd) = None \<Longrightarrow>
   state_after (run lib self st cmd)
     = (state_after (dispatch lib self (st\<lparr>behavior_state := b\<rparr>) cmd))\<lparr>
         ticks := ticks st + 1, pitch := Command.pitch cmd, roll := Command.roll cmd,
         height := Command.height cmd\<rparr>"
  using dispatch_frame [of lib self "st\<lparr>behavior_state := b\<rparr>" cmd]
  by (simp add: run_def Let_def)

lemma run_Inr_raised:
  "transition st cmd = Inr b \<Longrightarrow>
   raised (dispatch lib self (st\<lparr>behavior_state := b\<rparr>) cmd) = Some e \<Longrightarrow>
   run lib self st cmd = dispatch lib self (st\<lparr>behavior_state := b\<rparr>) cmd"
  by (simp add: run_def Let_def)

section \<open>The behavior state machine\<close>

text \<open>
  C1. The three tables of the controller are the tables the specification lists. For
  every state and command: when the honoured event (activate before trot before hop)
  has a successor listed for the current state, \<open>behavior_state\<close> is that successor after
  \<open>run\<close>; when no event is set, \<open>behavior_state\<close> is unchanged. Events of lower
  priority that are set at the same time play no part.
\<close>

theorem run_follows_tables:
  "table_of Activate = spec_successor Activate
   \<and> table_of Trot = spec_successor Trot
   \<and> table_of Hop = spec_successor Hop
   \<and> (\<forall>ev b. honored_event cmd = Some ev \<and> spec_successor ev (behavior_state st) = Some b
        \<longrightarrow> behavior_state (state_after (run lib self st cmd)) = b)
   \<and> (honored_event cmd = None
        \<longrightarrow> behavior_state (state_after (run lib self st cmd)) = behavior_state st)"
proof -
  have tables: "table_of ev = spec_successor ev" for ev
    by (rule ext) (rule table_of_spec)
  have hit: "behavior_state (state_after (run lib self st cmd)) = b"
    if "honored_event cmd = Some ev" and "spec_successor ev (behavior_state st) = Some b" for ev b
  proof -
    from that have "transition st cmd = Inr b"
      by (simp add: transition_honored getitem_def table_of_spec)
    then show ?thesis by (rule run_behavior_state)
  qed
  have idle: "behavior_state (state_after (run lib self st cmd)) = behavior_state st"
    if "honored_event cmd = None"
  proof -
    from that have "transition st cmd = Inr (behavior_state st)"
      by (simp add: transition_honored)
    then show ?thesis by (rule run_behavior_state)
  qed
  from tables hit idle show ?thesis by blast
qed

text \<open>
  In REST with both the trot and the hop event set, trot is honoured and the state
  becomes TROT.
\<close>

theorem run_follows_tables_witness:
  "honored_event (example_command False True True) = Some Trot
   \<and> spec_successor Trot (behavior_state (example_state REST 0 (1, 0, 0, 0))) = Some TROT
   \<and> behavior_state (state_after (run transforms3d example_controller
        (example_state REST 0 (1, 0, 0, 0)) (example_command False True True))) = TROT"
  using run_follows_tables [of "example_command False True True" "example_state REST 0 (1, 0, 0, 0)"
      transforms3d example_controller]
  by (simp add: honored_event_def example_command_def example_state_def)
     (simp add: trot_transition_mapping_def)

text \<open>
  C2, as stated: when the honoured event's table has no entry for the current state,
  \<open>run\<close> produces a defined outcome instead of an unhandled lookup failure. The
  controller does not: in TROT with the activate event set, the lookup's KeyError leaves
  \<open>run\<close>.
\<close>

theorem activate_in_trot_raises:
  "raised (run transforms3d example_controller (example_state TROT 0 (1, 0, 0, 0))
     (example_command True False False)) = Some KeyError"
  by (simp add: run_def transition_def getitem_def activate_transition_mapping_def
      example_command_def example_state_def)

text \<open>
  C2, amended: \<open>run\<close> raises KeyError exactly when the honoured event's table has no
  entry for the current state; the failed lookup is not handled.
\<close>

theorem missing_entry_raises_KeyError:
  "raised (run lib self st cmd) = Some KeyError
     \<longleftrightarrow> (\<exists>ev. honored_event cmd = Some ev \<and> table_of ev (behavior_state st) = None)"
proof (cases "transition st cmd")
  case (Inl e)
  then have "e = KeyError" by (rule transition_KeyError)
  with Inl have "raised (run lib self st cmd) = Some KeyError" by (simp add: run_Inl)
  moreover from Inl have "\<exists>ev. honored_event cmd = Some ev \<and> table_of ev (behavior_state st) = None"
    using transition_Inl_iff [of st cmd] by blast
  ultimately show ?thesis by simp
next
  case (Inr b)
  then have "raised (run lib self st cmd) \<noteq> Some KeyError"
    using dispatch_not_KeyError [of lib self "st\<lparr>behavior_state := b\<rparr>" cmd]
    by (simp add: run_raised)
  moreover from Inr have "\<not> (\<exists>ev. honored_event cmd = Some ev \<and> table_of ev (behavior_state st) = None)"
    using transition_Inl_iff [of st cmd] by auto
  ultimately show ?thesis by simp
qed

text \<open>In HOP with the activate and trot events set, activate is honoured and has no entry.\<close>

theorem missing_entry_raises_KeyError_witness:
  "honored_event (example_command True True False) = Some Activate
   \<and> table_of Activate (behavior_state (example_state HOP 3 (1, 0, 0, 0))) = None
   \<and> raised (run transforms3d example_controller (example_state HOP 3 (1, 0, 0, 0))
        (example_command True True False)) = Some KeyError"
  using missing_entry_raises_KeyError [of transforms3d example_controller
      "example_state HOP 3 (1, 0, 0, 0)" "example_command True True False"]
  by (simp add: honored_event_def example_command_def example_state_def
      activate_transition_mapping_def)

text \<open>
  C9. When the honoured event's table has no entry for the current state, the lookup
  fails before anything is assigned: \<open>run\<close> raises KeyError, the state object
  (\<open>behavior_state\<close>, \<open>ticks\<close>, \<open>foot_locations\<close>, \<open>joint_angles\<close>, \<open>pitch\<close>, \<open>roll\<close>,
  \<open>height\<close>) and the controller object (with \<open>smoothed_yaw\<close>) are as before the call,
  and no planner or inverse-kinematics call is made.
\<close>

theorem missing_entry_leaves_state:
  assumes "honored_event cmd = Some ev" and "table_of ev (behavior_state st) = None"
  shows "run lib self st cmd
           = \<lparr>raised = Some KeyError, controller_after = self, state_after = st, calls = []\<rparr>"
proof -
  from assms have "transition st cmd = Inl KeyError"
    by (simp add: transition_honored getitem_def)
  then show ?thesis by (rule run_Inl)
qed

theorem missing_entry_leaves_state_witness:
  "honored_event (example_command False False True) = Some Hop
   \<and> table_of Hop (behavior_state (example_state DEACTIVATED 7 (1, 0, 0, 0))) = None
   \<and> run transforms3d example_controller (example_state DEACTIVATED 7 (1, 0, 0, 0))
        (example_command False False True)
      = \<lparr>raised = Some KeyError, controller_after = example_controller,
         state_after = example_state DEACTIVATED 7 (1, 0, 0, 0), calls = []\<rparr>"
  using missing_entry_leaves_state [of "example_command False False True" Hop
      "example_state DEACTIVATED 7 (1, 0, 0, 0)" transforms3d example_controller]
  by (simp add: honored_event_def example_command_def example_state_def
      hop_transition_mapping_def)

section \<open>The end of the tick\<close>

text \<open>
  C6, as stated: every invocation of \<open>run\<close> increases \<open>ticks\<close> by exactly 1. An invocation
  that raises does not: in TROT with the activate event set, \<open>ticks\<close> stays as it was.
\<close>

theorem ticks_not_advanced_on_KeyError:
  "ticks (state_after (run transforms3d example_controller (example_state TROT 5 (1, 0, 0, 0))
     (example_command True False False)))
   \<noteq> ticks (example_state TROT 5 (1, 0, 0, 0)) + 1"
  by (simp add: run_def transition_def getitem_def activate_transition_mapping_def
      example_command_def example_state_def)

text \<open>
  C6, amended: every invocation of \<open>run\<close> that returns without raising, in whatever mode
  (DEACTIVATED included), increases \<open>ticks\<close> by exactly 1 and sets \<open>pitch\<close>, \<open>roll\<close> and
  \<open>height\<close> of the state to the command's values; an invocation that raises leaves
  these four fields as they were.
\<close>

theorem run_tail_updates:
  "(raised (run lib self st cmd) = None \<longrightarrow>
      ticks (state_after (run lib self st cmd)) = ticks st + 1
      \<and> pitch (state_after (run lib self st cmd)) = Command.pitch cmd
      \<and> roll (state_after (run lib self st cmd)) = Command.roll cmd
      \<and> height (state_after (run lib self st cmd)) = Command.height cmd)
   \<and> (raised (run lib self st cmd) \<noteq> None \<longrightarrow>
      ticks (state_after (run lib self st cmd)) = ticks st
      \<and> pitch (state_after (run lib self st cmd)) = pitch st
      \<and> roll (state_after (run lib self st cmd)) = roll st
      \<and> height (state_after (run lib self st cmd)) = height st)"
proof (cases "transition st cmd")
  case (Inl e)
  then show ?thesis by (simp add: run_Inl)
next
  case (Inr b)
  show ?thesis
  proof (cases "raised (dispatch lib self (st\<lparr>behavior_state := b\<rparr>) cmd)")
    case None
    with Inr have "raised (run lib self st cmd) = None" by (simp add: run_raised)
    with Inr None show ?thesis by (simp add: run_Inr_ok)
  next
    case (Some e)
    with Inr have "run lib self st cmd = dispatch lib self (st\<lparr>behavior_state := b\<rparr>) cmd"
      by (rule run_Inr_raised)
    with Some show ?thesis
      using dispatch_frame [of lib self "st\<lparr>behavior_state := b\<rparr>" cmd] by simp
  qed
qed

text \<open>A tick in DEACTIVATED with no event set.\<close>

theorem run_tail_updates_witness:
  "raised (run transforms3d example_controller (example_state DEACTIVATED 5 (1, 0, 0, 0))
     (example_command False False False)) = None
   \<and> ticks (state_after (run transforms3d example_controller (example_state DEACTIVATED 5 (1, 0, 0, 0))
     (example_command False False False))) = 6
   \<and> pitch (state_after (run transforms3d example_controller (example_state DEACTIVATED 5 (1, 0, 0, 0))
     (example_command False False False))) = 0.05
   \<and> roll (state_after (run transforms3d example_controller (example_state DEACTIVATED 5 (1, 0, 0, 0))
     (example_command False False False))) = 0.1
   \<and> height (state_after (run transforms3d example_controller (example_state DEACTIVATED 5 (1, 0, 0, 0))
     (example_command False False False))) = - 0.2"
proof -
  have ok: "raised (run transforms3d example_controller (example_state DEACTIVATED 5 (1, 0, 0, 0))
     (example_command False False False)) = None"
    by (simp add: run_def transition_def dispatch_def example_command_def example_state_def)
  with run_tail_updates [of transforms3d example_controller "example_state DEACTIVATED 5 (1, 0, 0, 0)"
      "example_command False False False"]
  show ?thesis by (simp add: example_command_def example_state_def)
qed

section \<open>The modes without gait\<close>

text \<open>
  C7. When \<open>behavior_state\<close> is DEACTIVATED after the transition, \<open>run\<close> returns with
  \<open>foot_locations\<close>, \<open>joint_angles\<close> and \<open>smoothed_yaw\<close> as before the call, and it calls
  neither a planner nor inverse kinematics.
\<close>

theorem deactivated_is_idle:
  assumes "transition st cmd = Inr DEACTIVATED"
  shows "raised (run lib self st cmd) = None
         \<and> foot_locations (state_after (run lib self st cmd)) = foot_locations st
         \<and> joint_angles (state_after (run lib self st cmd)) = joint_angles st
         \<and> smoothed_yaw (controller_after (run lib self st cmd)) = smoothed_yaw self
         \<and> calls (run lib self st cmd) = []"
  using assms
  by (simp add: run_raised run_foot_joint run_controller run_calls dispatch_DEACTIVATED)

text \<open>In REST the activate event leads to DEACTIVATED.\<close>

theorem deactivated_is_idle_witness:
  "transition (example_state REST 2 (1, 0, 0, 0)) (example_command True False False) = Inr DEACTIVATED
   \<and> raised (run transforms3d example_controller (example_state REST 2 (1, 0, 0, 0))
        (example_command True False False)) = None
   \<and> foot_locations (state_after (run transforms3d example_controller (example_state REST 2 (1, 0, 0, 0))
        (example_command True False False))) = foot_locations (example_state REST 2 (1, 0, 0, 0))
   \<and> joint_angles (state_after (run transforms3d example_controller (example_state REST 2 (1, 0, 0, 0))
        (example_command True False False))) = zeros34
   \<and> smoothed_yaw (controller_after (run transforms3d example_controller
        (example_state REST 2 (1, 0, 0, 0)) (example_command True False False))) = 0
   \<and> calls (run transforms3d example_controller (example_state REST 2 (1, 0, 0, 0))
        (example_command True False False)) = []"
proof -
  have t: "transition (example_state REST 2 (1, 0, 0, 0)) (example_command True False False)
      = Inr DEACTIVATED"
    by (simp add: transition_def getitem_def activate_transition_mapping_def
        example_command_def example_state_def)
  from deactivated_is_idle [OF t, of transforms3d example_controller] t
  show ?thesis by (simp add: example_state_def example_controller_def)
qed

text \<open>
  C5. When \<open>behavior_state\<close> is HOP after the transition, \<open>run\<close> sets every leg column of
  \<open>foot_locations\<close> to the column of \<open>default_stance\<close> plus \<open>(0, 0, -0.09)\<close>; when it is
  FINISHHOP, plus \<open>(0, 0, -0.22)\<close>. In both modes \<open>joint_angles\<close> becomes the result of
  inverse kinematics on that matrix (and the configuration), the only call made.
\<close>

theorem hop_crouch_offsets:
  assumes "transition st cmd = Inr b"
    and "b = HOP \<and> dz = - 0.09 \<or> b = FINISHHOP \<and> dz = - 0.22"
  shows "raised (run lib self st cmd) = None
         \<and> (\<forall>leg<4. col (foot_locations (state_after (run lib self st cmd))) leg
               = vadd (col (default_stance (config self)) leg) (0, 0, dz))
         \<and> joint_angles (state_after (run lib self st cmd))
             = inverse_kinematics self (foot_locations (state_after (run lib self st cmd))) (config self)
         \<and> calls (run lib self st cmd) = [IKCall (foot_locations (state_after (run lib self st cmd)))]"
proof -
  from assms(2) have "dispatch lib self (st\<lparr>behavior_state := b\<rparr>) cmd
      = run_hop dz self (st\<lparr>behavior_state := b\<rparr>)"
    by (auto simp add: dispatch_hop)
  with assms(1) show ?thesis
    using run_hop_result [of dz self "st\<lparr>behavior_state := b\<rparr>"]
    by (simp add: run_raised run_foot_joint run_calls col_add_newaxis)
qed

text \<open>
  From REST the hop event leads to HOP, from HOP to FINISHHOP; the example's inverse
  kinematics returns the matrix it is given.
\<close>

theorem hop_crouch_offsets_witness:
  "transition (example_state REST 0 (1, 0, 0, 0)) (example_command False False True) = Inr HOP
   \<and> foot_locations (state_after (run transforms3d example_controller
        (example_state REST 0 (1, 0, 0, 0)) (example_command False False True)))
      = ((0.1, - 0.09, - 0.09), (0.1, 0.09, - 0.09), (- 0.1, - 0.09, - 0.09), (- 0.1, 0.09, - 0.09))
   \<and> joint_angles (state_after (run transforms3d example_controller
        (example_state REST 0 (1, 0, 0, 0)) (example_command False False True)))
      = ((0.1, - 0.09, - 0.09), (0.1, 0.09, - 0.09), (- 0.1, - 0.09, - 0.09), (- 0.1, 0.09, - 0.09))
   \<and> transition (example_state HOP 1 (1, 0, 0, 0)) (example_command False False True) = Inr FINISHHOP
   \<and> foot_locations (state_after (run transforms3d example_controller
        (example_state HOP 1 (1, 0, 0, 0)) (example_command False False True)))
      = ((0.1, - 0.09, - 0.22), (0.1, 0.09, - 0.22), (- 0.1, - 0.09, - 0.22), (- 0.1, 0.09, - 0.22))"
proof -
  let ?hop = "run transforms3d example_controller
        (example_state REST 0 (1, 0, 0, 0)) (example_command False False True)"
  let ?finish = "run transforms3d example_controller
        (example_state HOP 1 (1, 0, 0, 0)) (example_command False False True)"
  have t1: "transition (example_state REST 0 (1, 0, 0, 0)) (example_command False False True) = Inr HOP"
    by (simp add: transition_def getitem_def hop_transition_mapping_def
        example_command_def example_state_def)
  have t2: "transition (example_state HOP 1 (1, 0, 0, 0)) (example_command False False True)
      = Inr FINISHHOP"
    by (simp add: transition_def getitem_def hop_transition_mapping_def
        example_command_def example_state_def)
  have a: "foot_locations (state_after ?hop)
      = ((0.1, - 0.09, - 0.09), (0.1, 0.09, - 0.09), (- 0.1, - 0.09, - 0.09), (- 0.1, 0.09, - 0.09))"
    using hop_crouch_offsets [OF t1, of "- 0.09" transforms3d example_controller]
    by (cases "foot_locations (state_after ?hop)")
       (simp add: all_legs example_controller_def example_config_def)
  have b: "foot_locations (state_after ?finish)
      = ((0.1, - 0.09, - 0.22), (0.1, 0.09, - 0.22), (- 0.1, - 0.09, - 0.22), (- 0.1, 0.09, - 0.22))"
    using hop_crouch_offsets [OF t2, of "- 0.22" transforms3d example_controller]
    by (cases "foot_locations (state_after ?finish)")
       (simp add: all_legs example_controller_def example_config_def)
  have c: "joint_angles (state_after ?hop)
      = ((0.1, - 0.09, - 0.09), (0.1, 0.09, - 0.09), (- 0.1, - 0.09, - 0.09), (- 0.1, 0.09, - 0.09))"
    using hop_crouch_offsets [OF t1, of "- 0.09" transforms3d example_controller] a
    by (simp add: example_controller_def)
  from t1 t2 a b c show ?thesis by simp
qed

section \<open>The gait-phase demultiplexer\<close>

text \<open>
  With at least four contact flags and a non-zero \<open>swing_ticks\<close>, \<open>step_gait\<close> raises
  nothing; leg by leg it takes the stance planner's location when the flag is 1 and the
  swing planner's otherwise.
\<close>

lemma step_gait_legs:
  fixes self :: "'j Controller" and st :: "'j State" and cmd :: Command
  assumes len: "4 \<le> length (contacts self (ticks st))"
    and swing: "swing_ticks (config self) \<noteq> 0"
  defines "cm \<equiv> contacts self (ticks st)"
  defines "p \<equiv> real_of_int (subphase_ticks self (ticks st)) / real_of_int (swing_ticks (config self))"
  defines "loc \<equiv> \<lambda>leg. if cm ! leg = 1 then stance_next_foot_location self leg st cmd
                         else swing_next_foot_location self p leg st cmd"
  defines "route \<equiv> \<lambda>leg. if cm ! leg = 1 then StanceCall leg else SwingCall p leg"
  shows "step_gait self st cmd
           = (Inr ((loc 0, loc 1, loc 2, loc 3), cm), [route 0, route 1, route 2, route 3])"
proof -
  have leg: "step_gait_leg self st cmd cm leg = Inr (loc leg, route leg)" if "leg < 4" for leg
    using that len swing
    by (simp add: step_gait_leg_def index_def int_truediv_def cm_def p_def loc_def route_def)
  have "step_gait_loop self st cmd cm [0, 1, 2, 3] zeros34 []
          = (Inr (loc 0, loc 1, loc 2, loc 3), [route 0, route 1, route 2, route 3])"
    by (simp add: leg zeros34_def)
  then show ?thesis
    by (simp add: step_gait_def range4 cm_def)
qed

text \<open>
  C4. In \<open>step_gait\<close>, given the schedule's four contact flags for the current tick and
  a non-zero \<open>swing_ticks\<close>, each leg index 0..3 is routed to exactly one planner, in
  order: to the stance planner when its flag equals 1, otherwise to the swing planner
  with swing proportion \<open>subphase_ticks(ticks) / swing_ticks\<close>. Column \<open>leg\<close> of the
  returned matrix is the location that planner returned, and the flags are returned
  with it.
\<close>

theorem step_gait_routes_each_leg:
  assumes "4 \<le> length (contacts self (ticks st))" and "swing_ticks (config self) \<noteq> 0"
  shows "\<exists>M. step_gait self st cmd
           = (Inr (M, contacts self (ticks st)),
              map (\<lambda>leg. if contacts self (ticks st) ! leg = 1 then StanceCall leg
                         else SwingCall (real_of_int (subphase_ticks self (ticks st))
                                          / real_of_int (swing_ticks (config self))) leg)
                  [0, 1, 2, 3])
         \<and> (\<forall>leg<4. col M leg
               = (if contacts self (ticks st) ! leg = 1
                  then stance_next_foot_location self leg st cmd
                  else swing_next_foot_location self
                         (real_of_int (subphase_ticks self (ticks st))
                            / real_of_int (swing_ticks (config self))) leg st cmd))"
proof -
  define loc where "loc = (\<lambda>leg. if contacts self (ticks st) ! leg = 1
      then stance_next_foot_location self leg st cmd
      else swing_next_foot_location self
             (real_of_int (subphase_ticks self (ticks st))
                / real_of_int (swing_ticks (config self))) leg st cmd)"
  have eq: "step_gait self st cmd
      = (Inr ((loc 0, loc 1, loc 2, loc 3), contacts self (ticks st)),
         map (\<lambda>leg. if contacts self (ticks st) ! leg = 1 then StanceCall leg
                    else SwingCall (real_of_int (subphase_ticks self (ticks st))
                                     / real_of_int (swing_ticks (config self))) leg)
             [0, 1, 2, 3])"
    unfolding loc_def using step_gait_legs [OF assms, of cmd] by simp
  have cols: "\<forall>leg<4. col (loc 0, loc 1, loc 2, loc 3) leg = loc leg"
    by (simp add: all_legs)
  from eq cols show ?thesis
    unfolding loc_def by blast
qed

text \<open>
  At tick 1 the example schedule has legs 0 and 3 in stance and legs 1 and 2 in swing,
  one tenth into the swing.
\<close>

theorem step_gait_routes_each_leg_witness:
  "4 \<le> length (contacts example_controller (ticks (example_state TROT 1 (1, 0, 0, 0))))
   \<and> swing_ticks (config example_controller) \<noteq> 0
   \<and> step_gait example_controller (example_state TROT 1 (1, 0, 0, 0)) (example_command False False False)
      = (Inr (((0.09, - 0.09, - 0.16), (0.12, 0.09, - 0.06), (- 0.08, - 0.09, - 0.06),
               (- 0.11, 0.09, - 0.16)), [1, 0, 0, 1]),
         [StanceCall 0, SwingCall 0.1 1, SwingCall 0.1 2, StanceCall 3])"
proof -
  let ?st = "example_state TROT 1 (1, 0, 0, 0)"
  let ?cmd = "example_command False False False"
  have h1: "4 \<le> length (contacts example_controller (ticks ?st))"
    by (simp add: example_controller_def example_state_def example_contacts_def)
  have h2: "swing_ticks (config example_controller) \<noteq> 0"
    by (simp add: example_controller_def example_config_def)
  from step_gait_routes_each_leg [OF h1 h2, of ?cmd]
  obtain M where eq: "step_gait example_controller ?st ?cmd
      = (Inr (M, contacts example_controller (ticks ?st)),
         map (\<lambda>leg. if contacts example_controller (ticks ?st) ! leg = 1 then StanceCall leg
                    else SwingCall (real_of_int (subphase_ticks example_controller (ticks ?st))
                                     / real_of_int (swing_ticks (config example_controller))) leg)
             [0, 1, 2, 3])"
    and cols: "\<forall>leg<4. col M leg
               = (if contacts example_controller (ticks ?st) ! leg = 1
                  then stance_next_foot_location example_controller leg ?st ?cmd
                  else swing_next_foot_location example_controller
                         (real_of_int (subphase_ticks example_controller (ticks ?st))
                            / real_of_int (swing_ticks (config example_controller))) leg ?st ?cmd)"
    by blast
  from cols have "M = ((0.09, - 0.09, - 0.16), (0.12, 0.09, - 0.06), (- 0.08, - 0.09, - 0.06),
               (- 0.11, 0.09, - 0.16))"
    by (cases M)
       (simp add: all_legs example_controller_def example_state_def example_contacts_def
          example_config_def)
  with eq h1 h2 show ?thesis
    by (simp add: example_controller_def example_state_def example_contacts_def example_config_def)
qed

section \<open>The attitude compensator\<close>

text \<open>
  What \<open>run\<close> does in TROT once \<open>step_gait\<close> has returned the matrix \<open>F\<close> and
  \<open>quat2euler\<close> the angles \<open>(r, p, y)\<close>: \<open>X\<close> is the matrix handed to inverse kinematics.
\<close>

lemma run_trot_result:
  assumes "step_gait self st cmd = (Inr (F, cm), tr)"
    and "quat2euler lib (quat_orientation st) = (r, p, y)"
    and "X = matmul (transpose33 (euler2mat lib (0.8 * clip r (- 0.4) 0.4) (0.8 * clip p (- 0.4) 0.4) 0))
           (matmul (euler2mat lib (Command.roll cmd) (Command.pitch cmd) 0) F)"
  shows "run_trot lib self st cmd
    = \<lparr>raised = None, controller_after = self,
       state_after = st\<lparr>foot_locations := F, joint_angles := inverse_kinematics self X (config self)\<rparr>,
       calls = tr @ [IKCall X]\<rparr>"
  using assms by (simp add: run_trot_def Let_def)

lemma run_in_trot:
  assumes "transition st cmd = Inr TROT"
    and "step_gait self (st\<lparr>behavior_state := TROT\<rparr>) cmd = (Inr (F, cm), tr)"
    and "quat2euler lib (quat_orientation st) = (r, p, y)"
    and "X = matmul (transpose33 (euler2mat lib (0.8 * clip r (- 0.4) 0.4) (0.8 * clip p (- 0.4) 0.4) 0))
           (matmul (euler2mat lib (Command.roll cmd) (Command.pitch cmd) 0) F)"
  shows "raised (run lib self st cmd) = None"
    and "foot_locations (state_after (run lib self st cmd)) = F"
    and "joint_angles (state_after (run lib self st cmd)) = inverse_kinematics self X (config self)"
    and "calls (run lib self st cmd) = tr @ [IKCall X]"
proof -
  have "quat2euler lib (quat_orientation (st\<lparr>behavior_state := TROT\<rparr>)) = (r, p, y)"
    using assms(3) by simp
  from run_trot_result [OF assms(2) this assms(4)]
  have d: "dispatch lib self (st\<lparr>behavior_state := TROT\<rparr>) cmd
    = \<lparr>raised = None, controller_after = self,
       state_after = st\<lparr>behavior_state := TROT, foot_locations := F,
         joint_angles := inverse_kinematics self X (config self)\<rparr>,
       calls = tr @ [IKCall X]\<rparr>"
    by (simp add: dispatch_TROT)
  show "raised (run lib self st cmd) = None"
    using assms(1) d by (simp add: run_raised)
  show "foot_locations (state_after (run lib self st cmd)) = F"
    using assms(1) d by (simp add: run_foot_joint)
  show "joint_angles (state_after (run lib self st cmd)) = inverse_kinematics self X (config self)"
    using assms(1) d by (simp add: run_foot_joint)
  show "calls (run lib self st cmd) = tr @ [IKCall X]"
    using assms(1) d by (simp add: run_calls)
qed

subsection \<open>The example collaborators at concrete inputs\<close>

lemma quat2euler_identity: "quat2euler_sxyz (1, 0, 0, 0) = (0, 0, 0)"
  by (simp add: quat2euler_sxyz_def quat2mat_def mat2euler_sxyz_def atan2_def float_eps_def Let_def)

lemma quat2euler_not_unit: "quat2euler_sxyz (1, 1, 0, 0) = (pi / 2, 0, 0)"
  by (simp add: quat2euler_sxyz_def quat2mat_def mat2euler_sxyz_def atan2_def float_eps_def Let_def)

lemma quat2euler_quarter_roll: "quat2euler_sxyz (sqrt 2 / 2, sqrt 2 / 2, 0, 0) = (pi / 2, 0, 0)"
  by (simp add: quat2euler_sxyz_def quat2mat_def mat2euler_sxyz_def atan2_def float_eps_def Let_def)

lemma spec_compensation_values: "spec_compensation (pi / 2) = 0.32" "spec_compensation 0 = 0"
  using pi_ge_two by (simp_all add: spec_compensation_def)

lemma clip_values: "0.8 * clip (pi / 2) (- 0.4) 0.4 = 0.32" "0.8 * clip 0 (- 0.4) 0.4 = 0"
  using pi_ge_two by (simp_all add: clip_def)

lemma example_transition_trot:
  "transition (example_state TROT t q) (example_command False False False) = Inr TROT"
  by (simp add: transition_def example_command_def example_state_def)

lemma example_step_gait_even:
  "step_gait example_controller (example_state TROT 0 q) cmd
  = (Inr (((0.09, - 0.09, - 0.16), (0.09, 0.09, - 0.16), (- 0.11, - 0.09, - 0.16), (- 0.11, 0.09, - 0.16)),
          [1, 1, 1, 1]),
     [StanceCall 0, StanceCall 1, StanceCall 2, StanceCall 3])"
  by (simp add: step_gait_def range4 step_gait_leg_def index_def zeros34_def
      example_controller_def example_state_def example_contacts_def)

lemma sin_small_pos: "0 < sin (0.1::real)" "0 < sin (0.32::real)"
proof -
  have "(0.1::real) < pi" "(0.32::real) < pi"
    using pi_ge_two by simp_all
  then show "0 < sin (0.1::real)" "0 < sin (0.32::real)"
    by (simp_all add: sin_gt_zero)
qed

subsection \<open>The compensation angles and the order of the rotations\<close>

text \<open>
  C3. In TROT mode, whatever the measured orientation, the matrix passed to inverse
  kinematics is the transpose of \<open>euler2mat(a, b, 0)\<close> times the product of
  \<open>euler2mat(command.roll, command.pitch, 0)\<close> and the fresh foot locations, where \<open>a\<close>
  and \<open>b\<close> are the measured roll and the measured pitch, each clipped to the interval
  from \<open>-0.4\<close> to \<open>0.4\<close> and multiplied by \<open>0.8\<close>: the commanded rotation is applied
  first, the inverse of the compensation second.
\<close>

theorem trot_tilt_compensation:
  assumes "transition st cmd = Inr TROT"
    and "step_gait self (st\<lparr>behavior_state := TROT\<rparr>) cmd = (Inr (F, cm), tr)"
    and "quat2euler lib (quat_orientation st) = (r, p, y)"
  shows "calls (run lib self st cmd)
    = tr @ [IKCall
        (matmul (transpose33 (euler2mat lib (spec_compensation r) (spec_compensation p) 0))
           (matmul (euler2mat lib (Command.roll cmd) (Command.pitch cmd) 0) F))]"
  using run_in_trot(4) [OF assms refl] unfolding clip_spec .

text \<open>
  A measured roll of a quarter turn (a unit quaternion) is clipped to \<open>0.4\<close> and scaled
  to \<open>0.32\<close>; the measured pitch is 0.
\<close>

theorem trot_tilt_compensation_witness:
  "transition (example_state TROT 0 (sqrt 2 / 2, sqrt 2 / 2, 0, 0)) (example_command False False False)
     = Inr TROT
   \<and> quat2euler transforms3d (quat_orientation (example_state TROT 0 (sqrt 2 / 2, sqrt 2 / 2, 0, 0)))
     = (pi / 2, 0, 0)
   \<and> calls (run transforms3d example_controller (example_state TROT 0 (sqrt 2 / 2, sqrt 2 / 2, 0, 0))
        (example_command False False False))
     = [StanceCall 0, StanceCall 1, StanceCall 2, StanceCall 3,
        IKCall (matmul (transpose33 (euler2mat_sxyz 0.32 0 0))
          (matmul (euler2mat_sxyz 0.1 0.05 0)
             ((0.09, - 0.09, - 0.16), (0.09, 0.09, - 0.16), (- 0.11, - 0.09, - 0.16),
              (- 0.11, 0.09, - 0.16))))]"
proof -
  let ?st = "example_state TROT 0 (sqrt 2 / 2, sqrt 2 / 2, 0, 0)"
  let ?cmd = "example_command False False False"
  have t: "transition ?st ?cmd = Inr TROT"
    by (rule example_transition_trot)
  have g: "step_gait example_controller (?st\<lparr>behavior_state := TROT\<rparr>) ?cmd
    = (Inr (((0.09, - 0.09, - 0.16), (0.09, 0.09, - 0.16), (- 0.11, - 0.09, - 0.16),
             (- 0.11, 0.09, - 0.16)), [1, 1, 1, 1]),
       [StanceCall 0, StanceCall 1, StanceCall 2, StanceCall 3])"
    using example_step_gait_even [of "(sqrt 2 / 2, sqrt 2 / 2, 0, 0)" ?cmd]
    by (simp add: example_state_def)
  have q: "quat2euler transforms3d (quat_orientation ?st) = (pi / 2, 0, 0)"
    using quat2euler_quarter_roll by (simp add: transforms3d_def example_state_def)
  have e: "euler2mat transforms3d = euler2mat_sxyz"
    by (simp add: transforms3d_def)
  have c: "Command.roll ?cmd = 0.1" "Command.pitch ?cmd = 0.05"
    by (simp_all add: example_command_def)
  from trot_tilt_compensation [OF t g q]
  have "calls (run transforms3d example_controller ?st ?cmd)
     = [StanceCall 0, StanceCall 1, StanceCall 2, StanceCall 3,
        IKCall (matmul (transpose33 (euler2mat_sxyz 0.32 0 0))
          (matmul (euler2mat_sxyz 0.1 0.05 0)
             ((0.09, - 0.09, - 0.16), (0.09, 0.09, - 0.16), (- 0.11, - 0.09, - 0.16),
              (- 0.11, 0.09, - 0.16))))]"
    unfolding e c spec_compensation_values by simp
  with t q show ?thesis by blast
qed

subsection \<open>What is stored and what is passed on\<close>

text \<open>
  C10, as stated: in TROT mode, whenever the commanded rotation or the compensation is
  not the identity, the stored \<open>foot_locations\<close> differ from the matrix passed to inverse
  kinematics. With the four feet on the x axis and a commanded roll of \<open>0.1\<close>, the
  rotation is not the identity and the two matrices are equal.
\<close>

theorem rotation_about_foot_axis:
  "euler2mat transforms3d (Command.roll roll_command) (Command.pitch roll_command) 0 \<noteq> eye33
   \<and> raised (run transforms3d example_controller axis_state roll_command) = None
   \<and> last (calls (run transforms3d example_controller axis_state roll_command))
       = IKCall (foot_locations (state_after (run transforms3d example_controller axis_state roll_command)))"
proof -
  let ?F = "((0.1, 0, 0), (0.2, 0, 0), (- 0.1, 0, 0), (- 0.2, 0, 0)) :: mat34"
  have t: "transition axis_state roll_command = Inr TROT"
    by (simp add: transition_def axis_state_def roll_command_def example_command_def example_state_def)
  have g: "step_gait example_controller (axis_state\<lparr>behavior_state := TROT\<rparr>) roll_command
    = (Inr (?F, [1, 1, 1, 1]), [StanceCall 0, StanceCall 1, StanceCall 2, StanceCall 3])"
    by (simp add: step_gait_def range4 step_gait_leg_def index_def zeros34_def
        example_controller_def example_state_def example_contacts_def axis_state_def)
  have q: "quat2euler transforms3d (quat_orientation axis_state) = (0, 0, 0)"
    using quat2euler_identity by (simp add: transforms3d_def axis_state_def example_state_def)
  have x: "?F = matmul (transpose33 (euler2mat transforms3d (0.8 * clip 0 (- 0.4) 0.4)
                  (0.8 * clip 0 (- 0.4) 0.4) 0))
           (matmul (euler2mat transforms3d (Command.roll roll_command) (Command.pitch roll_command) 0) ?F)"
    by (simp add: transforms3d_def euler2mat_sxyz_def Let_def clip_def roll_command_def example_command_def)
  note r = run_in_trot [OF t g q x]
  have "euler2mat transforms3d (Command.roll roll_command) (Command.pitch roll_command) 0 \<noteq> eye33"
    using sin_small_pos(1)
    by (simp add: transforms3d_def euler2mat_sxyz_def Let_def eye33_def roll_command_def example_command_def)
  moreover have "last (calls (run transforms3d example_controller axis_state roll_command))
       = IKCall (foot_locations (state_after (run transforms3d example_controller axis_state roll_command)))"
    unfolding r(4) r(2) by simp
  ultimately show ?thesis using r(1) by blast
qed

text \<open>
  C10, amended: in TROT mode, after \<open>run\<close> returns, \<open>foot_locations\<close> holds the output
  \<open>F\<close> of \<open>step_gait\<close>, not rotated; \<open>joint_angles\<close> is the result of inverse kinematics
  on a separate matrix \<open>X\<close>, which is \<open>F\<close> rotated by the commanded roll and pitch and
  then by the inverse of the tilt compensation, and \<open>X\<close> is stored nowhere. The stored
  matrix differs from the one passed on exactly when \<open>X\<close> differs from \<open>F\<close>.
\<close>

theorem trot_stores_unrotated:
  assumes "transition st cmd = Inr TROT"
    and "step_gait self (st\<lparr>behavior_state := TROT\<rparr>) cmd = (Inr (F, cm), tr)"
    and "quat2euler lib (quat_orientation st) = (r, p, y)"
    and "X = matmul (transpose33 (euler2mat lib (0.8 * clip r (- 0.4) 0.4) (0.8 * clip p (- 0.4) 0.4) 0))
           (matmul (euler2mat lib (Command.roll cmd) (Command.pitch cmd) 0) F)"
  shows "raised (run lib self st cmd) = None
    \<and> foot_locations (state_after (run lib self st cmd)) = F
    \<and> joint_angles (state_after (run lib self st cmd)) = inverse_kinematics self X (config self)
    \<and> last (calls (run lib self st cmd)) = IKCall X
    \<and> (foot_locations (state_after (run lib self st cmd)) \<noteq> X \<longleftrightarrow> X \<noteq> F)"
proof -
  note r = run_in_trot [OF assms]
  have "last (calls (run lib self st cmd)) = IKCall X"
    unfolding r(4) by simp
  moreover have "foot_locations (state_after (run lib self st cmd)) \<noteq> X \<longleftrightarrow> X \<noteq> F"
    unfolding r(2) by blast
  ultimately show ?thesis
    using r(1) r(2) r(3) by blast
qed

text \<open>With realistic feet and a commanded roll of \<open>0.1\<close> the two matrices differ.\<close>

theorem trot_stores_unrotated_witness:
  "transition (example_state TROT 0 (1, 0, 0, 0)) roll_command = Inr TROT
   \<and> raised (run transforms3d example_controller (example_state TROT 0 (1, 0, 0, 0)) roll_command) = None
   \<and> foot_locations (state_after (run transforms3d example_controller
        (example_state TROT 0 (1, 0, 0, 0)) roll_command))
     = ((0.09, - 0.09, - 0.16), (0.09, 0.09, - 0.16), (- 0.11, - 0.09, - 0.16), (- 0.11, 0.09, - 0.16))
   \<and> joint_angles (state_after (run transforms3d example_controller
        (example_state TROT 0 (1, 0, 0, 0)) roll_command))
     = matmul (euler2mat_sxyz 0.1 0 0)
         ((0.09, - 0.09, - 0.16), (0.09, 0.09, - 0.16), (- 0.11, - 0.09, - 0.16), (- 0.11, 0.09, - 0.16))
   \<and> foot_locations (state_after (run transforms3d example_controller
        (example_state TROT 0 (1, 0, 0, 0)) roll_command))
     \<noteq> matmul (euler2mat_sxyz 0.1 0 0)
         ((0.09, - 0.09, - 0.16), (0.09, 0.09, - 0.16), (- 0.11, - 0.09, - 0.16), (- 0.11, 0.09, - 0.16))"
proof -
  let ?st = "example_state TROT 0 (1, 0, 0, 0) :: mat34 State"
  let ?F = "((0.09, - 0.09, - 0.16), (0.09, 0.09, - 0.16), (- 0.11, - 0.09, - 0.16),
             (- 0.11, 0.09, - 0.16)) :: mat34"
  let ?X = "matmul (euler2mat_sxyz 0.1 0 0) ?F"
  have t: "transition ?st roll_command = Inr TROT"
    by (simp add: transition_def roll_command_def example_command_def example_state_def)
  have g: "step_gait example_controller (?st\<lparr>behavior_state := TROT\<rparr>) roll_command
    = (Inr (?F, [1, 1, 1, 1]), [StanceCall 0, StanceCall 1, StanceCall 2, StanceCall 3])"
    using example_step_gait_even [of "(1, 0, 0, 0)" roll_command] by (simp add: example_state_def)
  have q: "quat2euler transforms3d (quat_orientation ?st) = (0, 0, 0)"
    using quat2euler_identity by (simp add: transforms3d_def example_state_def)
  have x: "?X = matmul (transpose33 (euler2mat transforms3d (0.8 * clip 0 (- 0.4) 0.4)
                  (0.8 * clip 0 (- 0.4) 0.4) 0))
           (matmul (euler2mat transforms3d (Command.roll roll_command) (Command.pitch roll_command) 0) ?F)"
    by (simp add: transforms3d_def euler2mat_sxyz_def Let_def clip_def roll_command_def
        example_command_def)
  have differ: "?X \<noteq> ?F"
  proof
    assume "?X = ?F"
    then have "cos (0.1::real) * (- 0.09) - sin (0.1::real) * (- 0.16) = - 0.09"
      and "sin (0.1::real) * (- 0.09) + cos (0.1::real) * (- 0.16) = - 0.16"
      by (simp_all add: euler2mat_sxyz_def Let_def)
    then have "sin (0.1::real) = 0" by simp
    with sin_small_pos(1) show False by simp
  qed
  have ik: "inverse_kinematics example_controller ?X (config example_controller) = ?X"
    by (simp add: example_controller_def)
  note r = trot_stores_unrotated [OF t g q x]
  from r have a: "raised (run transforms3d example_controller ?st roll_command) = None"
    by (rule conjunct1)
  from r have b: "foot_locations (state_after (run transforms3d example_controller ?st roll_command)) = ?F"
    by blast
  from r have c: "joint_angles (state_after (run transforms3d example_controller ?st roll_command)) = ?X"
    unfolding ik by blast
  have d: "foot_locations (state_after (run transforms3d example_controller ?st roll_command)) \<noteq> ?X"
    unfolding b using differ by (rule not_sym)
  from t a b c d show ?thesis by blast
qed

subsection \<open>Orientations that are not unit quaternions\<close>

text \<open>
  C8, as stated: for a \<open>quat_orientation\<close> that is not a unit quaternion, \<open>run\<close> computes
  the tilt compensation from the identity orientation instead. It does not: with the
  quaternion \<open>(1, 1, 0, 0)\<close> the joint angles differ from those obtained with the
  identity quaternion \<open>(1, 0, 0, 0)\<close>, everything else being equal.
\<close>

theorem non_unit_orientation_not_replaced:
  "\<not> unit_quat (1, 1, 0, 0)
   \<and> joint_angles (state_after (run transforms3d example_controller
        (example_state TROT 0 (1, 1, 0, 0)) level_command))
     \<noteq> joint_angles (state_after (run transforms3d example_controller
        (example_state TROT 0 (1, 0, 0, 0)) level_command))"
proof -
  let ?F = "((0.09, - 0.09, - 0.16), (0.09, 0.09, - 0.16), (- 0.11, - 0.09, - 0.16),
             (- 0.11, 0.09, - 0.16)) :: mat34"
  have t: "transition (example_state TROT 0 q) level_command = Inr TROT" for q
    by (simp add: transition_def level_command_def example_command_def example_state_def)
  have g: "step_gait example_controller ((example_state TROT 0 q)\<lparr>behavior_state := TROT\<rparr>) level_command
    = (Inr (?F, [1, 1, 1, 1]), [StanceCall 0, StanceCall 1, StanceCall 2, StanceCall 3])" for q
    using example_step_gait_even [of q level_command] by (simp add: example_state_def)
  have q1: "quat2euler transforms3d (quat_orientation (example_state TROT 0 (1, 1, 0, 0))) = (pi / 2, 0, 0)"
    using quat2euler_not_unit by (simp add: transforms3d_def example_state_def)
  have q0: "quat2euler transforms3d (quat_orientation (example_state TROT 0 (1, 0, 0, 0))) = (0, 0, 0)"
    using quat2euler_identity by (simp add: transforms3d_def example_state_def)
  have j1: "joint_angles (state_after (run transforms3d example_controller
        (example_state TROT 0 (1, 1, 0, 0)) level_command))
      = matmul (transpose33 (euler2mat_sxyz 0.32 0 0)) ?F"
    unfolding run_in_trot(3) [OF t g q1 refl] clip_values
    by (simp add: example_controller_def transforms3d_def level_command_def example_command_def)
       (simp add: euler2mat_sxyz_def Let_def)
  have j0: "joint_angles (state_after (run transforms3d example_controller
        (example_state TROT 0 (1, 0, 0, 0)) level_command)) = ?F"
    unfolding run_in_trot(3) [OF t g q0 refl] clip_values
    by (simp add: example_controller_def transforms3d_def level_command_def example_command_def)
       (simp add: euler2mat_sxyz_def Let_def)
  have "matmul (transpose33 (euler2mat_sxyz 0.32 0 0)) ?F \<noteq> ?F"
  proof
    assume "matmul (transpose33 (euler2mat_sxyz 0.32 0 0)) ?F = ?F"
    then have "cos (0.32::real) * (- 0.09) + sin (0.32::real) * (- 0.16) = - 0.09"
      and "- sin (0.32::real) * (- 0.09) + cos (0.32::real) * (- 0.16) = - 0.16"
      by (simp_all add: euler2mat_sxyz_def Let_def)
    then have "sin (0.32::real) = 0" by simp
    with sin_small_pos(2) show False by simp
  qed
  moreover have "\<not> unit_quat (1, 1, 0, 0)"
    by (simp add: unit_quat_def)
  ultimately show ?thesis unfolding j1 j0 by blast
qed

text \<open>
  C8, amended: \<open>run\<close> checks nothing about \<open>quat_orientation\<close> and substitutes nothing
  for it. In TROT mode, also for a quaternion that is not of unit norm, the tilt
  compensation is built from the roll and pitch that \<open>quat2euler\<close> returns for that
  quaternion, clipped to \<open>0.4\<close> in magnitude and scaled by \<open>0.8\<close>, and \<open>joint_angles\<close>
  is the result of inverse kinematics on the foot locations so rotated.
\<close>

theorem trot_uses_orientation_unguarded:
  assumes "\<not> unit_quat (quat_orientation st)"
    and "transition st cmd = Inr TROT"
    and "step_gait self (st\<lparr>behavior_state := TROT\<rparr>) cmd = (Inr (F, cm), tr)"
    and "quat2euler lib (quat_orientation st) = (r, p, y)"
  shows "joint_angles (state_after (run lib self st cmd))
    = inverse_kinematics self
        (matmul (transpose33 (euler2mat lib (0.8 * clip r (- 0.4) 0.4) (0.8 * clip p (- 0.4) 0.4) 0))
           (matmul (euler2mat lib (Command.roll cmd) (Command.pitch cmd) 0) F))
        (config self)"
  using run_in_trot(3) [OF assms(2) assms(3) assms(4) refl] .

theorem trot_uses_orientation_unguarded_witness:
  "\<not> unit_quat (quat_orientation (example_state TROT 0 (1, 1, 0, 0)))
   \<and> transition (example_state TROT 0 (1, 1, 0, 0)) level_command = Inr TROT
   \<and> quat2euler transforms3d (quat_orientation (example_state TROT 0 (1, 1, 0, 0))) = (pi / 2, 0, 0)
   \<and> joint_angles (state_after (run transforms3d example_controller
        (example_state TROT 0 (1, 1, 0, 0)) level_command))
     = matmul (transpose33 (euler2mat_sxyz 0.32 0 0))
         ((0.09, - 0.09, - 0.16), (0.09, 0.09, - 0.16), (- 0.11, - 0.09, - 0.16), (- 0.11, 0.09, - 0.16))"
proof -
  let ?st = "example_state TROT 0 (1, 1, 0, 0) :: mat34 State"
  let ?F = "((0.09, - 0.09, - 0.16), (0.09, 0.09, - 0.16), (- 0.11, - 0.09, - 0.16),
             (- 0.11, 0.09, - 0.16)) :: mat34"
  have u: "\<not> unit_quat (quat_orientation ?st)"
    by (simp add: unit_quat_def example_state_def)
  have t: "transition ?st level_command = Inr TROT"
    by (simp add: transition_def level_command_def example_command_def example_state_def)
  have g: "step_gait example_controller (?st\<lparr>behavior_state := TROT\<rparr>) level_command
    = (Inr (?F, [1, 1, 1, 1]), [StanceCall 0, StanceCall 1, StanceCall 2, StanceCall 3])"
    using example_step_gait_even [of "(1, 1, 0, 0)" level_command] by (simp add: example_state_def)
  have q: "quat2euler transforms3d (quat_orientation ?st) = (pi / 2, 0, 0)"
    using quat2euler_not_unit by (simp add: transforms3d_def example_state_def)
  have "joint_angles (state_after (run transforms3d example_controller ?st level_command))
      = matmul (transpose33 (euler2mat_sxyz 0.32 0 0)) ?F"
    unfolding trot_uses_orientation_unguarded [OF u t g q] clip_values
    by (simp add: example_controller_def transforms3d_def level_command_def example_command_def)
       (simp add: euler2mat_sxyz_def Let_def)
  with u t q show ?thesis by blast
qed

end
